theory Spec2Isabelle
  imports Main "HOL-Library.Word"
begin

section \<open>The TreasureHunt ledger (contract TreasureHunt, Solidity ^0.8.20)\<close>

text \<open>
  An \<open>address\<close> is a 160-bit word, \<open>address(0)\<close> is \<open>0\<close>. A Solidity mapping is a
  total function whose value at a key never written is the zero value of its type; the zero
  value of \<open>HuntStatus\<close> is its first member, \<open>Active\<close>.

  The \<open>uint256\<close> quantities of the contract are block timestamps, lengths of time of at
  most 90 days, amounts of wei and a counter that grows by one per registration. Solidity
  0.8 reverts with a panic when \<open>+\<close> or \<open>*\<close> overflows. The sums of the contract
  overflow only on a timestamp or a number of registrations near \<open>2 ^ 256\<close> or on payments
  of more than \<open>2 ^ 256\<close> wei in total, which no chain supplies, so these quantities are
  natural numbers and \<open>+\<close> is exact. The product \<open>balance * WITHDRAWAL_PERCENT\<close> of
  \<open>withdraw\<close> overflows from a pot of \<open>2 ^ 256 / 50\<close>, an amount a single
  \<open>uint256\<close> deposit can hold, and its check is written out. The guarded subtraction of
  \<open>getPotBalance\<close> is written out.
\<close>

type_synonym address = "160 word"

datatype HuntStatus = Active | Claimed | Expired

record Hunt =
  hider :: address
  locationCommitment :: nat
  initialPrize :: nat
  createdAt :: nat
  claimableAfter :: nat
  expiresAt :: nat
  hintPrice :: nat
  status :: HuntStatus

record Claim =
  claimer :: address
  claimTime :: nat
  lastWithdrawal :: nat
  totalWithdrawn :: nat

datatype zkproof = ZkProof (pA: "nat \<times> nat") (pB: "(nat \<times> nat) \<times> (nat \<times> nat)") (pC: "nat \<times> nat")

datatype event =
    HuntCreated nat address nat nat nat
  | HintPurchased nat address nat
  | ClaimSubmitted nat address
  | Withdrawal nat address nat
  | HuntExpired nat

datatype error = Revert string | Panic | TransferFailed

text \<open>
  The storage of the contract, the ether it holds (\<open>funds\<close>), and what it has emitted:
  the payments it made (\<open>sent\<close>) and its events, newest first.
\<close>

record ledger =
  huntCounter :: nat
  hunts :: "nat \<Rightarrow> Hunt"
  claims :: "nat \<Rightarrow> Claim"
  contributions :: "nat \<Rightarrow> address \<Rightarrow> nat"
  hasPurchasedHint :: "nat \<Rightarrow> address \<Rightarrow> bool"
  totalContributions :: "nat \<Rightarrow> nat"
  funds :: nat
  sent :: "(address \<times> nat) list"
  events :: "event list"

text \<open>
  What the contract calls outside itself: the verifier contract fixed by the constructor
  (\<open>verifyProof\<close>, a view function of the proof and its one public signal), and the
  recipients of its ether. The code of a recipient runs at each transfer and decides then
  whether to take it: \<open>accepts\<close> tells, for the time of the call, the account and the
  amount, whether the account takes a plain transfer of that amount.
\<close>

record env =
  verifyProof :: "zkproof \<Rightarrow> nat \<Rightarrow> bool"
  accepts :: "nat \<Rightarrow> address \<Rightarrow> nat \<Rightarrow> bool"

definition UINT256_LIMIT :: nat where
  "UINT256_LIMIT = 2 ^ 256"

definition WITHDRAWAL_INTERVAL :: nat where
  "WITHDRAWAL_INTERVAL = 86400"

definition WITHDRAWAL_PERCENT :: nat where
  "WITHDRAWAL_PERCENT = 50"

definition MIN_HIDER_LOCKOUT :: nat where
  "MIN_HIDER_LOCKOUT = 0"

definition MAX_HUNT_DURATION :: nat where
  "MAX_HUNT_DURATION = 7776000"

definition bindE :: "error + 'a \<Rightarrow> ('a \<Rightarrow> error + 'b) \<Rightarrow> error + 'b" where
  "bindE r k = (case r of Inl e \<Rightarrow> Inl e | Inr x \<Rightarrow> k x)"

definition zeroHunt :: Hunt where
  "zeroHunt = \<lparr>hider = 0, locationCommitment = 0, initialPrize = 0, createdAt = 0,
     claimableAfter = 0, expiresAt = 0, hintPrice = 0, status = Active\<rparr>"

definition zeroClaim :: Claim where
  "zeroClaim = \<lparr>claimer = 0, claimTime = 0, lastWithdrawal = 0, totalWithdrawn = 0\<rparr>"

text \<open>The contract right after its constructor: nothing written, no ether.\<close>

definition deployed :: ledger where
  "deployed = \<lparr>huntCounter = 0, hunts = (\<lambda>_. zeroHunt), claims = (\<lambda>_. zeroClaim),
     contributions = (\<lambda>_ _. 0), hasPurchasedHint = (\<lambda>_ _. False),
     totalContributions = (\<lambda>_. 0), funds = 0, sent = [], events = []\<rparr>"

text \<open>
  \<open>payable(to).transfer(amount)\<close> in a call at time \<open>now\<close>: reverts when the contract
  holds less than the amount or the recipient does not take it.
\<close>

definition transfer :: "env \<Rightarrow> ledger \<Rightarrow> nat \<Rightarrow> address \<Rightarrow> nat \<Rightarrow> error + ledger" where
  "transfer E s now to amount =
     (if funds s < amount \<or> \<not> accepts E now to amount then Inl TransferFailed
      else Inr (s\<lparr>funds := funds s - amount, sent := (to, amount) # sent s\<rparr>))"

definition getPotBalance :: "ledger \<Rightarrow> nat \<Rightarrow> nat" where
  "getPotBalance s huntId =
     (let totalPot = initialPrize (hunts s huntId) + totalContributions s huntId;
          withdrawn = totalWithdrawn (claims s huntId)
      in if totalPot > withdrawn then totalPot - withdrawn else 0)"

text \<open>
  \<open>createHunt\<close> is payable: \<open>msg_value\<close> reaches the contract with the call.
  \<open>huntCounter++\<close> yields the old counter.
\<close>

definition createHunt ::
  "ledger \<Rightarrow> address \<Rightarrow> nat \<Rightarrow> nat \<Rightarrow> nat \<Rightarrow> nat \<Rightarrow> nat \<Rightarrow> nat \<Rightarrow> error + (nat \<times> ledger)" where
  "createHunt s msg_sender msg_value now locCommitment lockoutPeriod duration price =
     (if \<not> msg_value > 0 then Inl (Revert ''Must deposit prize'')
      else if \<not> lockoutPeriod \<ge> MIN_HIDER_LOCKOUT then Inl (Revert ''Lockout too short'')
      else if \<not> duration \<le> MAX_HUNT_DURATION then Inl (Revert ''Duration too long'')
      else if \<not> duration > lockoutPeriod then Inl (Revert ''Duration must exceed lockout'')
      else
        let huntId = huntCounter s in
        Inr (huntId,
          s\<lparr>huntCounter := huntCounter s + 1,
            hunts := (hunts s)(huntId :=
              \<lparr>hider = msg_sender, locationCommitment = locCommitment,
               initialPrize = msg_value, createdAt = now, claimableAfter = now + lockoutPeriod,
               expiresAt = now + duration, hintPrice = price, status = Active\<rparr>),
            funds := funds s + msg_value,
            events := HuntCreated huntId msg_sender locCommitment msg_value (now + lockoutPeriod)
                        # events s\<rparr>))"

definition purchaseHint :: "ledger \<Rightarrow> address \<Rightarrow> nat \<Rightarrow> nat \<Rightarrow> error + ledger" where
  "purchaseHint s msg_sender msg_value huntId =
     (let hunt = hunts s huntId in
      if \<not> status hunt = Active then Inl (Revert ''Hunt not active'')
      else if \<not> msg_value \<ge> hintPrice hunt then Inl (Revert ''Insufficient payment'')
      else if \<not> \<not> hasPurchasedHint s huntId msg_sender then Inl (Revert ''Already purchased'')
      else
        Inr (s\<lparr>contributions := (contributions s)(huntId :=
                   (contributions s huntId)(msg_sender := contributions s huntId msg_sender + msg_value)),
               totalContributions := (totalContributions s)(huntId :=
                   totalContributions s huntId + msg_value),
               hasPurchasedHint := (hasPurchasedHint s)(huntId :=
                   (hasPurchasedHint s huntId)(msg_sender := True)),
               funds := funds s + msg_value,
               events := HintPurchased huntId msg_sender msg_value # events s\<rparr>))"

definition claimTreasure ::
  "env \<Rightarrow> ledger \<Rightarrow> address \<Rightarrow> nat \<Rightarrow> nat \<Rightarrow> zkproof \<Rightarrow> nat \<Rightarrow> error + ledger" where
  "claimTreasure E s msg_sender now huntId proof claimCommitment =
     (let hunt = hunts s huntId in
      if \<not> status hunt = Active then Inl (Revert ''Hunt not active'')
      else if \<not> now \<ge> claimableAfter hunt then Inl (Revert ''Still in lockout period'')
      else if \<not> now < expiresAt hunt then Inl (Revert ''Hunt expired'')
      else if \<not> claimer (claims s huntId) = 0 then Inl (Revert ''Already claimed'')
      else if \<not> verifyProof E proof claimCommitment then Inl (Revert ''Invalid proof'')
      else
        Inr (s\<lparr>claims := (claims s)(huntId :=
                   \<lparr>claimer = msg_sender, claimTime = now, lastWithdrawal = 0, totalWithdrawn = 0\<rparr>),
               hunts := (hunts s)(huntId := hunt\<lparr>status := Claimed\<rparr>),
               events := ClaimSubmitted huntId msg_sender # events s\<rparr>))"

text \<open>
  The state changes of \<open>withdraw\<close> come before its transfer, and a transfer that fails
  reverts them with the call. The product of the balance and the percentage is checked
  \<open>uint256\<close> arithmetic: the call panics when it does not fit.
\<close>

definition withdraw :: "env \<Rightarrow> ledger \<Rightarrow> address \<Rightarrow> nat \<Rightarrow> nat \<Rightarrow> error + ledger" where
  "withdraw E s msg_sender now huntId =
     (let hunt = hunts s huntId; claim = claims s huntId in
      if \<not> status hunt = Claimed then Inl (Revert ''Not claimed'')
      else if \<not> claimer claim = msg_sender then Inl (Revert ''Not the claimer'')
      else if \<not> (lastWithdrawal claim = 0 \<or> now \<ge> lastWithdrawal claim + WITHDRAWAL_INTERVAL)
        then Inl (Revert ''Withdrawal too soon'')
      else
        let balance = getPotBalance s huntId in
        if \<not> balance > 0 then Inl (Revert ''No funds remaining'')
        else if \<not> balance * WITHDRAWAL_PERCENT < UINT256_LIMIT then Inl Panic
        else
          let withdrawAmount0 = (balance * WITHDRAWAL_PERCENT) div 100;
              withdrawAmount = (if withdrawAmount0 = 0 then balance else withdrawAmount0)
          in bindE (transfer E
                     (s\<lparr>claims := (claims s)(huntId :=
                          claim\<lparr>lastWithdrawal := now,
                                totalWithdrawn := totalWithdrawn claim + withdrawAmount\<rparr>)\<rparr>)
                     now msg_sender withdrawAmount) (\<lambda>s'.
               Inr (s'\<lparr>events := Withdrawal huntId msg_sender withdrawAmount # events s'\<rparr>)))"

definition expireHunt :: "env \<Rightarrow> ledger \<Rightarrow> address \<Rightarrow> nat \<Rightarrow> nat \<Rightarrow> error + ledger" where
  "expireHunt E s msg_sender now huntId =
     (let hunt = hunts s huntId in
      if \<not> status hunt = Active then Inl (Revert ''Not active'')
      else if \<not> now \<ge> expiresAt hunt then Inl (Revert ''Not expired yet'')
      else
        let s1 = s\<lparr>hunts := (hunts s)(huntId := hunt\<lparr>status := Expired\<rparr>)\<rparr>;
            balance = getPotBalance s1 huntId
        in bindE (if balance > 0 then transfer E s1 now (hider hunt) balance else Inr s1) (\<lambda>s2.
             Inr (s2\<lparr>events := HuntExpired huntId # events s2\<rparr>)))"

section \<open>Transactions and reachable states\<close>

text \<open>
  One external call of the contract. The two payable functions carry \<open>msg.value\<close> as
  their first argument; the other three are not payable.
\<close>

datatype call =
    CallCreateHunt nat nat nat nat nat
  | CallPurchaseHint nat nat
  | CallClaimTreasure nat zkproof nat
  | CallWithdraw nat
  | CallExpireHunt nat

fun run :: "env \<Rightarrow> ledger \<Rightarrow> address \<Rightarrow> nat \<Rightarrow> call \<Rightarrow> error + ledger" where
  "run E s msg_sender now (CallCreateHunt msg_value locCommitment lockoutPeriod duration price) =
     bindE (createHunt s msg_sender msg_value now locCommitment lockoutPeriod duration price)
       (\<lambda>r. Inr (snd r))"
| "run E s msg_sender now (CallPurchaseHint msg_value huntId) =
     purchaseHint s msg_sender msg_value huntId"
| "run E s msg_sender now (CallClaimTreasure huntId proof claimCommitment) =
     claimTreasure E s msg_sender now huntId proof claimCommitment"
| "run E s msg_sender now (CallWithdraw huntId) = withdraw E s msg_sender now huntId"
| "run E s msg_sender now (CallExpireHunt huntId) = expireHunt E s msg_sender now huntId"


text \<open>A transaction: a call that reverts leaves the ledger as it was.\<close>

definition transact :: "env \<Rightarrow> ledger \<Rightarrow> address \<Rightarrow> nat \<Rightarrow> call \<Rightarrow> ledger" where
  "transact E s msg_sender now c = (case run E s msg_sender now c of Inl e \<Rightarrow> s | Inr s' \<Rightarrow> s')"

inductive steps :: "env \<Rightarrow> ledger \<Rightarrow> ledger \<Rightarrow> bool" for E :: env and s :: ledger where
  steps_refl: "steps E s s"
| steps_call: "steps E s s' \<Longrightarrow> run E s' msg_sender now c = Inr s'' \<Longrightarrow> steps E s s''"

definition reachable :: "env \<Rightarrow> ledger \<Rightarrow> bool" where
  "reachable E s = steps E deployed s"

section \<open>Notions used to state the properties\<close>

definition succeeds :: "error + 'a \<Rightarrow> bool" where
  "succeeds r = (case r of Inl e \<Rightarrow> False | Inr x \<Rightarrow> True)"

text \<open>
  The amount of a withdrawal as the specification words it: the floor of 50 percent of the
  pot, and the whole pot when that floor is zero.
\<close>

definition released :: "nat \<Rightarrow> nat" where
  "released B = (if B * 50 div 100 = 0 then B else B * 50 div 100)"

text \<open>The ledger with the stored location commitment of one hunt replaced.\<close>

definition replaceLocationCommitment :: "ledger \<Rightarrow> nat \<Rightarrow> nat \<Rightarrow> ledger" where
  "replaceLocationCommitment s i lc =
     s\<lparr>hunts := (hunts s)(i := (hunts s i)\<lparr>locationCommitment := lc\<rparr>)\<rparr>"

text \<open>
  What holds of every hunt id in every reachable ledger: an id not handed out yet has no
  deadline and is not claimed; a hunt that is not claimed has no claim record; no more was
  withdrawn than came in; the running total is the sum of the contributions; a registered
  hunt has a prize.
\<close>

definition hunt_inv :: "ledger \<Rightarrow> nat \<Rightarrow> bool" where
  "hunt_inv s i \<longleftrightarrow>
     (huntCounter s \<le> i \<longrightarrow> expiresAt (hunts s i) = 0 \<and> status (hunts s i) \<noteq> Claimed)
     \<and> (status (hunts s i) \<noteq> Claimed \<longrightarrow> claims s i = zeroClaim)
     \<and> totalWithdrawn (claims s i) \<le> initialPrize (hunts s i) + totalContributions s i
     \<and> totalContributions s i = (\<Sum>a\<in>UNIV. contributions s i a)
     \<and> (i < huntCounter s \<longrightarrow> 0 < initialPrize (hunts s i))"

text \<open>
  Pot conservation for one hunt: the running total is the sum of the contributions, and
  the pot balance and what was withdrawn add up to the prize and the contributions.
\<close>

definition pot_conserved :: "ledger \<Rightarrow> nat \<Rightarrow> bool" where
  "pot_conserved s i \<longleftrightarrow>
     totalContributions s i = (\<Sum>a\<in>UNIV. contributions s i a)
     \<and> getPotBalance s i + totalWithdrawn (claims s i)
         = initialPrize (hunts s i) + (\<Sum>a\<in>UNIV. contributions s i a)"

section \<open>Runs of the ledger\<close>

text \<open>
  The run of the specification's scenarios, with the verifier of MockVerifier.sol, which
  accepts every proof: account 1 registers hunt 0 at time 1000 with a lockout of one day,
  account 2 claims it when the lockout ends and withdraws at once.
\<close>

definition mockEnv :: env where
  "mockEnv = \<lparr>verifyProof = (\<lambda>proof pubSignal. True), accepts = (\<lambda>now account amount. True)\<rparr>"

definition someProof :: zkproof where
  "someProof = ZkProof (0, 0) ((0, 0), (0, 0)) (0, 0)"

definition ledger1 :: ledger where
  "ledger1 = transact mockEnv deployed 1 1000 (CallCreateHunt 1000000 42 86400 1209600 1000)"

definition ledger2 :: ledger where
  "ledger2 = transact mockEnv ledger1 2 87400 (CallClaimTreasure 0 someProof 7)"

definition ledger3 :: ledger where
  "ledger3 = transact mockEnv ledger2 2 87400 (CallWithdraw 0)"


text \<open>Instead of a claim, account 9 expires hunt 0 at its deadline.\<close>

definition ledgerE :: ledger where
  "ledgerE = transact mockEnv ledger1 9 1210600 (CallExpireHunt 0)"



text \<open>
  An environment in which accounts 1 and 2 are contracts that do not take a plain ether
  transfer (they have no payable receive function); every other account takes it.
\<close>

definition refusingEnv :: env where
  "refusingEnv = \<lparr>verifyProof = (\<lambda>proof pubSignal. True),
     accepts = (\<lambda>now account amount. account \<noteq> 1 \<and> account \<noteq> 2)\<rparr>"

text \<open>
  A run at block timestamp 0: account 1 registers hunt 0 without lockout, account 2 claims
  it and withdraws, all at time 0.
\<close>

definition ledgerZ1 :: ledger where
  "ledgerZ1 = transact mockEnv deployed 1 0 (CallCreateHunt 1000 42 0 3600 10)"

definition ledgerZ2 :: ledger where
  "ledgerZ2 = transact mockEnv ledgerZ1 2 0 (CallClaimTreasure 0 someProof 7)"

definition ledgerZ3 :: ledger where
  "ledgerZ3 = transact mockEnv ledgerZ2 2 0 (CallWithdraw 0)"

text \<open>
  A run on the deployed contract with the accepting environment: account 3 pays 100 for a
  hint of hunt id 0 before anybody has registered it, account 9 expires that id, which sends
  the 100 to \<open>address(0)\<close>, account 1 registers a hunt with a deposit of 2, which gets id
  0, and account 2 claims it.
\<close>

definition ledgerP1 :: ledger where
  "ledgerP1 = transact mockEnv deployed 3 10 (CallPurchaseHint 100 0)"

definition ledgerP2 :: ledger where
  "ledgerP2 = transact mockEnv ledgerP1 9 20 (CallExpireHunt 0)"

definition ledgerP3 :: ledger where
  "ledgerP3 = transact mockEnv ledgerP2 1 30 (CallCreateHunt 2 42 0 3600 10)"

definition ledgerP4 :: ledger where
  "ledgerP4 = transact mockEnv ledgerP3 2 40 (CallClaimTreasure 0 someProof 7)"

text \<open>
  A run with one large deposit: account 1 registers hunt 0 with a prize of \<open>2 ^ 255\<close> wei
  and no lockout, and account 2 claims it.
\<close>

definition ledgerO1 :: ledger where
  "ledgerO1 = transact mockEnv deployed 1 1000 (CallCreateHunt (2 ^ 255) 42 0 3600 10)"

definition ledgerO2 :: ledger where
  "ledgerO2 = transact mockEnv ledgerO1 2 1000 (CallClaimTreasure 0 someProof 7)"

text \<open>
  A run on the deployed contract: account 9 expires hunt id 0, which nobody has registered,
  and account 1 then registers a hunt, which gets id 0.
\<close>

definition ledgerU1 :: ledger where
  "ledgerU1 = transact mockEnv deployed 9 500 (CallExpireHunt 0)"

definition ledgerU2 :: ledger where
  "ledgerU2 = transact mockEnv ledgerU1 1 1000 (CallCreateHunt 1000000 42 86400 1209600 1000)"

section \<open>The distance check of the claim circuit and of the client\<close>

text \<open>
  Signals of the circuit are elements of the scalar field of BN254, the field circom
  compiles to by default. An integer input is taken modulo the prime.
\<close>

definition FIELD_PRIME :: nat where
  "FIELD_PRIME = 21888242871839275222246405745257275088548364400416034343698204186575808495617"

definition to_field :: "int \<Rightarrow> nat" where
  "to_field x = nat (x mod int FIELD_PRIME)"

definition fadd :: "nat \<Rightarrow> nat \<Rightarrow> nat" where
  "fadd a b = (a + b) mod FIELD_PRIME"

definition fsub :: "nat \<Rightarrow> nat \<Rightarrow> nat" where
  "fsub a b = (a + (FIELD_PRIME - b mod FIELD_PRIME)) mod FIELD_PRIME"

definition fmul :: "nat \<Rightarrow> nat \<Rightarrow> nat" where
  "fmul a b = (a * b) mod FIELD_PRIME"

text \<open>
  The template \<open>LessThan(n)\<close> that the circuit includes from circomlib (a library outside the
  repository): it decomposes \<open>in[0] + 2^n - in[1]\<close> into \<open>n + 1\<close> bits with
  \<open>Num2Bits(n+1)\<close> and outputs one minus the top bit. The decomposition has no solution
  when the value does not fit \<open>n + 1\<close> bits; then no witness exists (\<open>None\<close>).
\<close>

definition LessThan :: "nat \<Rightarrow> nat \<Rightarrow> nat \<Rightarrow> nat option" where
  "LessThan n in0 in1 =
     (let v = fsub (fadd in0 (2 ^ n)) in1
      in if v < 2 ^ (n + 1) then Some (1 - (v div 2 ^ n) mod 2) else None)"

definition DistanceCheck :: "nat \<Rightarrow> nat \<Rightarrow> nat \<Rightarrow> nat \<Rightarrow> nat \<Rightarrow> nat option" where
  "DistanceCheck myLat myLon targetLat targetLon maxDistSquared =
     (let latDiff = fsub myLat targetLat;
          lonDiff = fsub myLon targetLon;
          latDiffSquared = fmul latDiff latDiff;
          lonDiffSquared = fmul lonDiff lonDiff;
          distSquared = fadd latDiffSquared lonDiffSquared
      in LessThan 64 distSquared maxDistSquared)"

text \<open>
  The constraint \<open>distCheck.withinRange === 1\<close> of \<open>TreasureClaim\<close>: a proof can be
  built for the inputs exactly when the check outputs one.
\<close>

definition distanceAccepted :: "int \<Rightarrow> int \<Rightarrow> int \<Rightarrow> int \<Rightarrow> int \<Rightarrow> bool" where
  "distanceAccepted gpsLat gpsLon targetLat targetLon radiusSquared =
     (DistanceCheck (to_field gpsLat) (to_field gpsLon) (to_field targetLat) (to_field targetLon)
        (to_field radiusSquared) = Some 1)"

text \<open>
  The client's check (utils/gps.js), on scaled integer coordinates. JavaScript computes in
  doubles, which are exact on integers up to \<open>2 ^ 53\<close>: the model is the client's result
  for squared distances below that, far above the radius.
\<close>

definition RADIUS_SCALED :: int where
  "RADIUS_SCALED = 100"

definition RADIUS_SQUARED :: int where
  "RADIUS_SQUARED = RADIUS_SCALED * RADIUS_SCALED"

definition distanceSquared :: "int \<Rightarrow> int \<Rightarrow> int \<Rightarrow> int \<Rightarrow> int" where
  "distanceSquared lat1 lon1 lat2 lon2 =
     (let latDiff = lat1 - lat2; lonDiff = lon1 - lon2
      in latDiff * latDiff + lonDiff * lonDiff)"

definition isWithinRadius :: "int \<Rightarrow> int \<Rightarrow> int \<Rightarrow> int \<Rightarrow> bool" where
  "isWithinRadius lat1 lon1 lat2 lon2 =
     (let distSq = distanceSquared lat1 lon1 lat2 lon2 in distSq \<le> RADIUS_SQUARED)"

section \<open>When each operation succeeds, and what it writes\<close>

lemma createHunt_Inr_iff:
  "createHunt s a v now lc lo d p = Inr r \<longleftrightarrow>
     0 < v \<and> d \<le> MAX_HUNT_DURATION \<and> lo < d \<and>
     r = (huntCounter s,
          s\<lparr>huntCounter := huntCounter s + 1,
            hunts := (hunts s)(huntCounter s :=
              \<lparr>hider = a, locationCommitment = lc, initialPrize = v, createdAt = now,
               claimableAfter = now + lo, expiresAt = now + d, hintPrice = p, status = Active\<rparr>),
            funds := funds s + v,
            events := HuntCreated (huntCounter s) a lc v (now + lo) # events s\<rparr>)"
  by (auto simp: createHunt_def MIN_HIDER_LOCKOUT_def Let_def)

lemma purchaseHint_Inr_iff:
  "purchaseHint s a v i = Inr s' \<longleftrightarrow>
     status (hunts s i) = Active \<and> hintPrice (hunts s i) \<le> v \<and> \<not> hasPurchasedHint s i a \<and>
     s' = s\<lparr>contributions := (contributions s)(i := (contributions s i)(a := contributions s i a + v)),
            totalContributions := (totalContributions s)(i := totalContributions s i + v),
            hasPurchasedHint := (hasPurchasedHint s)(i := (hasPurchasedHint s i)(a := True)),
            funds := funds s + v,
            events := HintPurchased i a v # events s\<rparr>"
  by (auto simp: purchaseHint_def Let_def)

lemma claimTreasure_Inr_iff:
  "claimTreasure E s a now i p cc = Inr s' \<longleftrightarrow>
     status (hunts s i) = Active \<and> claimableAfter (hunts s i) \<le> now \<and> now < expiresAt (hunts s i) \<and>
     claimer (claims s i) = 0 \<and> verifyProof E p cc \<and>
     s' = s\<lparr>claims := (claims s)(i :=
                 \<lparr>claimer = a, claimTime = now, lastWithdrawal = 0, totalWithdrawn = 0\<rparr>),
            hunts := (hunts s)(i := (hunts s i)\<lparr>status := Claimed\<rparr>),
            events := ClaimSubmitted i a # events s\<rparr>"
  by (auto simp: claimTreasure_def Let_def)

lemma withdraw_Inr_iff:
  "withdraw E s a now i = Inr s' \<longleftrightarrow>
     status (hunts s i) = Claimed \<and> claimer (claims s i) = a \<and>
     (lastWithdrawal (claims s i) = 0 \<or> lastWithdrawal (claims s i) + WITHDRAWAL_INTERVAL \<le> now) \<and>
     0 < getPotBalance s i \<and> getPotBalance s i * 50 < UINT256_LIMIT \<and>
     released (getPotBalance s i) \<le> funds s \<and>
     accepts E now a (released (getPotBalance s i)) \<and>
     s' = s\<lparr>claims := (claims s)(i := (claims s i)\<lparr>lastWithdrawal := now,
                 totalWithdrawn := totalWithdrawn (claims s i) + released (getPotBalance s i)\<rparr>),
            funds := funds s - released (getPotBalance s i),
            sent := (a, released (getPotBalance s i)) # sent s,
            events := Withdrawal i a (released (getPotBalance s i)) # events s\<rparr>"
  by (auto simp: withdraw_def Let_def transfer_def bindE_def released_def WITHDRAWAL_PERCENT_def UINT256_LIMIT_def)

lemma getPotBalance_status [simp]:
  "getPotBalance (s\<lparr>hunts := (hunts s)(i := (hunts s i)\<lparr>status := st\<rparr>)\<rparr>) j = getPotBalance s j"
  by (simp add: getPotBalance_def)

lemma expireHunt_Inr_iff:
  "expireHunt E s a now i = Inr s' \<longleftrightarrow>
     status (hunts s i) = Active \<and> expiresAt (hunts s i) \<le> now \<and>
     (0 < getPotBalance s i \<longrightarrow>
        getPotBalance s i \<le> funds s \<and> accepts E now (hider (hunts s i)) (getPotBalance s i)) \<and>
     s' = (if 0 < getPotBalance s i
           then s\<lparr>hunts := (hunts s)(i := (hunts s i)\<lparr>status := Expired\<rparr>),
                  funds := funds s - getPotBalance s i,
                  sent := (hider (hunts s i), getPotBalance s i) # sent s,
                  events := HuntExpired i # events s\<rparr>
           else s\<lparr>hunts := (hunts s)(i := (hunts s i)\<lparr>status := Expired\<rparr>),
                  events := HuntExpired i # events s\<rparr>)"
  by (auto simp: expireHunt_def Let_def transfer_def bindE_def)

lemma run_CreateHunt_Inr_iff:
  "run E s a now (CallCreateHunt v lc lo d p) = Inr s' \<longleftrightarrow>
     createHunt s a v now lc lo d p = Inr (huntCounter s, s')"
proof (cases "createHunt s a v now lc lo d p")
  case (Inl e)
  then show ?thesis by (simp add: bindE_def)
next
  case (Inr r)
  then have "fst r = huntCounter s" by (simp add: createHunt_Inr_iff)
  with Inr show ?thesis by (cases r) (simp add: bindE_def)
qed

lemma succeeds_Inr_iff: "succeeds r \<longleftrightarrow> (\<exists>x. r = Inr x)"
  by (cases r) (simp_all add: succeeds_def)

lemma transact_failed: "\<not> succeeds (run E s a now c) \<Longrightarrow> transact E s a now c = s"
  by (cases "run E s a now c") (auto simp: transact_def succeeds_def)

lemma released_le: "released B \<le> B"
  by (simp add: released_def)

lemma released_pos: "0 < B \<Longrightarrow> 0 < released B"
  by (simp add: released_def)

section \<open>The invariant of every hunt\<close>

lemma sum_fun_upd_add:
  fixes f :: "address \<Rightarrow> nat"
  shows "(\<Sum>x\<in>UNIV. (f(a := f a + v)) x) = (\<Sum>x\<in>UNIV. f x) + v"
proof -
  have "(\<Sum>x\<in>UNIV. (f(a := f a + v)) x) = (f(a := f a + v)) a + (\<Sum>x\<in>UNIV - {a}. (f(a := f a + v)) x)"
    by (rule sum.remove) simp_all
  also have "(\<Sum>x\<in>UNIV - {a}. (f(a := f a + v)) x) = (\<Sum>x\<in>UNIV - {a}. f x)"
    by (rule sum.cong) simp_all
  also have "(f(a := f a + v)) a + (\<Sum>x\<in>UNIV - {a}. f x) = (f a + (\<Sum>x\<in>UNIV - {a}. f x)) + v"
    by simp
  also have "f a + (\<Sum>x\<in>UNIV - {a}. f x) = (\<Sum>x\<in>UNIV. f x)"
    by (rule sum.remove [symmetric]) simp_all
  finally show ?thesis .
qed

lemma sum_if_add:
  fixes f :: "address \<Rightarrow> nat"
  shows "(\<Sum>x\<in>UNIV. if x = a then f a + v else f x) = (\<Sum>x\<in>UNIV. f x) + v"
  using sum_fun_upd_add [of f a v] by (simp add: fun_upd_def)

lemma hunt_inv_deployed: "hunt_inv deployed j"
  by (simp add: hunt_inv_def deployed_def zeroHunt_def zeroClaim_def)

lemma hunt_inv_createHunt:
  assumes "hunt_inv s j" and "createHunt s a v now lc lo d p = Inr r"
  shows "hunt_inv (snd r) j"
  using assms unfolding createHunt_Inr_iff hunt_inv_def
  by (cases "j = huntCounter s") (auto simp: zeroClaim_def)

lemma hunt_inv_purchaseHint:
  assumes "hunt_inv s j" and "purchaseHint s a v i = Inr s'"
  shows "hunt_inv s' j"
  using assms unfolding purchaseHint_Inr_iff hunt_inv_def
  by (cases "j = i") (auto simp: sum_if_add)

lemma hunt_inv_claimTreasure:
  assumes "hunt_inv s j" and "claimTreasure E s a now i p cc = Inr s'"
  shows "hunt_inv s' j"
  using assms unfolding claimTreasure_Inr_iff hunt_inv_def
  by (cases "j = i") auto

lemma hunt_inv_withdraw:
  assumes "hunt_inv s j" and "withdraw E s a now i = Inr s'"
  shows "hunt_inv s' j"
proof (cases "j = i")
  case True
  have "totalWithdrawn (claims s i) + released (getPotBalance s i)
          \<le> initialPrize (hunts s i) + totalContributions s i"
    using assms(2) released_le [of "getPotBalance s i"]
    unfolding withdraw_Inr_iff by (simp add: getPotBalance_def Let_def split: if_splits)
  with True show ?thesis
    using assms unfolding withdraw_Inr_iff hunt_inv_def by (auto simp: zeroClaim_def)
next
  case False
  then show ?thesis
    using assms unfolding withdraw_Inr_iff hunt_inv_def by auto
qed

lemma hunt_inv_expireHunt:
  assumes "hunt_inv s j" and "expireHunt E s a now i = Inr s'"
  shows "hunt_inv s' j"
  using assms unfolding expireHunt_Inr_iff hunt_inv_def
  by (cases "j = i") (auto split: if_splits)

lemma hunt_inv_run:
  assumes "hunt_inv s j" and "run E s a now c = Inr s'"
  shows "hunt_inv s' j"
proof (cases c)
  case (CallCreateHunt v lc lo d p)
  with assms(2) obtain r where "createHunt s a v now lc lo d p = Inr r" and "s' = snd r"
    by (auto simp: bindE_def split: sum.splits)
  with assms(1) show ?thesis by (simp add: hunt_inv_createHunt)
next
  case (CallPurchaseHint v i)
  with assms show ?thesis by (auto intro: hunt_inv_purchaseHint)
next
  case (CallClaimTreasure i p cc)
  with assms show ?thesis by (auto intro: hunt_inv_claimTreasure)
next
  case (CallWithdraw i)
  with assms show ?thesis by (auto intro: hunt_inv_withdraw)
next
  case (CallExpireHunt i)
  with assms show ?thesis by (auto intro: hunt_inv_expireHunt)
qed

lemma hunt_inv_steps: "steps E s t \<Longrightarrow> hunt_inv s j \<Longrightarrow> hunt_inv t j"
  by (induction rule: steps.induct) (auto intro: hunt_inv_run)

lemma reachable_inv: "reachable E s \<Longrightarrow> hunt_inv s j"
  unfolding reachable_def by (erule hunt_inv_steps) (rule hunt_inv_deployed)

lemma claimed_registered: "hunt_inv s i \<Longrightarrow> status (hunts s i) = Claimed \<Longrightarrow> i < huntCounter s"
  by (cases "huntCounter s \<le> i") (auto simp: hunt_inv_def)

lemma pot_conserved_iff:
  "pot_conserved s i \<longleftrightarrow>
     totalContributions s i = (\<Sum>a\<in>UNIV. contributions s i a)
     \<and> totalWithdrawn (claims s i) \<le> initialPrize (hunts s i) + totalContributions s i"
  by (auto simp: pot_conserved_def getPotBalance_def Let_def)

lemma hunt_inv_pot_conserved: "hunt_inv s i \<Longrightarrow> pot_conserved s i"
  by (simp add: pot_conserved_iff hunt_inv_def)



section \<open>Sequences of calls\<close>

lemma steps_transact:
  assumes "steps E s t"
  shows "steps E s (transact E t a now c)"
proof (cases "run E t a now c")
  case (Inl e)
  with assms show ?thesis by (simp add: transact_def)
next
  case (Inr u)
  from steps_call [OF assms Inr] Inr show ?thesis by (simp add: transact_def)
qed

lemma steps_trans:
  assumes "steps E t u" and "steps E s t"
  shows "steps E s u"
  using assms
proof (induction rule: steps.induct)
  case steps_refl
  then show ?case .
next
  case (steps_call s' msg_sender now c s'')
  from steps_call.IH [OF steps_call.prems] steps_call.hyps(2) show ?case
    by (rule steps.steps_call)
qed

lemma reachable_steps: "reachable E s \<Longrightarrow> steps E s t \<Longrightarrow> reachable E t"
  unfolding reachable_def by (rule steps_trans)

lemma reachable_deployed: "reachable E deployed"
  by (simp add: reachable_def steps_refl)

lemma reachable_transact: "reachable E s \<Longrightarrow> reachable E (transact E s a now c)"
  unfolding reachable_def by (rule steps_transact)


text \<open>A registered hunt that has left Active keeps its status, its claimer and its claim time.\<close>

lemma terminal_run:
  assumes "run E s a now c = Inr s'" and "i < huntCounter s" and "status (hunts s i) \<noteq> Active"
  shows "i < huntCounter s' \<and> status (hunts s' i) = status (hunts s i)
         \<and> claimer (claims s' i) = claimer (claims s i)
         \<and> claimTime (claims s' i) = claimTime (claims s i)"
proof (cases c)
  case (CallCreateHunt v lc lo d p)
  with assms show ?thesis
    by (auto simp del: run.simps simp add: run_CreateHunt_Inr_iff createHunt_Inr_iff)
next
  case (CallPurchaseHint v j)
  with assms show ?thesis by (auto simp: purchaseHint_Inr_iff)
next
  case (CallClaimTreasure j p cc)
  with assms show ?thesis by (cases "j = i") (auto simp: claimTreasure_Inr_iff)
next
  case (CallWithdraw j)
  with assms show ?thesis by (cases "j = i") (auto simp: withdraw_Inr_iff)
next
  case (CallExpireHunt j)
  with assms show ?thesis by (cases "j = i") (auto simp: expireHunt_Inr_iff split: if_splits)
qed

lemma terminal_steps:
  assumes "steps E s t" and "i < huntCounter s" and "status (hunts s i) \<noteq> Active"
  shows "i < huntCounter t \<and> status (hunts t i) = status (hunts s i)
         \<and> claimer (claims t i) = claimer (claims s i)
         \<and> claimTime (claims t i) = claimTime (claims s i)"
  using assms
proof (induction rule: steps.induct)
  case steps_refl
  then show ?case by simp
next
  case (steps_call s' msg_sender now c s'')
  then show ?case using terminal_run [of E s' msg_sender now c s'' i] by simp
qed





section \<open>The runs, evaluated\<close>

lemma ledger1_eq:
  "ledger1 = deployed\<lparr>huntCounter := 1,
      hunts := (hunts deployed)(0 :=
        \<lparr>hider = 1, locationCommitment = 42, initialPrize = 1000000, createdAt = 1000,
         claimableAfter = 87400, expiresAt = 1210600, hintPrice = 1000, status = Active\<rparr>),
      funds := 1000000,
      events := [HuntCreated 0 1 42 1000000 87400]\<rparr>"
  by (simp add: ledger1_def transact_def createHunt_def bindE_def MIN_HIDER_LOCKOUT_def
      MAX_HUNT_DURATION_def deployed_def)

lemma claim_ledger1:
  "claimTreasure mockEnv ledger1 2 87400 0 someProof 7 = Inr ledger2"
  by (simp add: ledger2_def transact_def claimTreasure_def ledger1_eq mockEnv_def deployed_def
      zeroClaim_def)

lemma ledger2_eq:
  "ledger2 = \<lparr>huntCounter = 1,
      hunts = (\<lambda>_. zeroHunt)(0 :=
        \<lparr>hider = 1, locationCommitment = 42, initialPrize = 1000000, createdAt = 1000,
         claimableAfter = 87400, expiresAt = 1210600, hintPrice = 1000, status = Claimed\<rparr>),
      claims = (\<lambda>_. zeroClaim)(0 :=
        \<lparr>claimer = 2, claimTime = 87400, lastWithdrawal = 0, totalWithdrawn = 0\<rparr>),
      contributions = (\<lambda>_ _. 0), hasPurchasedHint = (\<lambda>_ _. False),
      totalContributions = (\<lambda>_. 0), funds = 1000000, sent = [],
      events = [ClaimSubmitted 0 2, HuntCreated 0 1 42 1000000 87400]\<rparr>"
  using claim_ledger1 by (simp add: claimTreasure_Inr_iff ledger1_eq deployed_def)

lemma getPotBalance_ledger2: "getPotBalance ledger2 0 = 1000000"
  by (simp add: getPotBalance_def ledger2_eq)

lemma released_1000000: "released 1000000 = 500000"
  by (simp add: released_def)

lemma ledger3_eq:
  "ledger3 = \<lparr>huntCounter = 1,
      hunts = (\<lambda>_. zeroHunt)(0 :=
        \<lparr>hider = 1, locationCommitment = 42, initialPrize = 1000000, createdAt = 1000,
         claimableAfter = 87400, expiresAt = 1210600, hintPrice = 1000, status = Claimed\<rparr>),
      claims = (\<lambda>_. zeroClaim)(0 :=
        \<lparr>claimer = 2, claimTime = 87400, lastWithdrawal = 87400, totalWithdrawn = 500000\<rparr>),
      contributions = (\<lambda>_ _. 0), hasPurchasedHint = (\<lambda>_ _. False),
      totalContributions = (\<lambda>_. 0), funds = 500000, sent = [(2, 500000)],
      events = [Withdrawal 0 2 500000, ClaimSubmitted 0 2, HuntCreated 0 1 42 1000000 87400]\<rparr>"
  by (simp add: ledger3_def transact_def withdraw_def getPotBalance_def transfer_def bindE_def
      mockEnv_def WITHDRAWAL_PERCENT_def UINT256_LIMIT_def ledger2_eq Let_def)



lemma withdraw_ledger2: "withdraw mockEnv ledger2 2 87400 0 = Inr ledger3"
  by (simp add: ledger3_def transact_def withdraw_def getPotBalance_def transfer_def bindE_def
      mockEnv_def WITHDRAWAL_PERCENT_def UINT256_LIMIT_def ledger2_eq Let_def)

lemma reachable_ledger1: "reachable mockEnv ledger1"
  unfolding ledger1_def by (rule reachable_transact [OF reachable_deployed])

lemma reachable_ledger2: "reachable mockEnv ledger2"
  unfolding ledger2_def by (rule reachable_transact [OF reachable_ledger1])


lemma reachable_refusing_ledger1: "reachable refusingEnv ledger1"
proof -
  have "transact refusingEnv deployed 1 1000 (CallCreateHunt 1000000 42 86400 1209600 1000) = ledger1"
    by (simp add: ledger1_def transact_def)
  with reachable_transact [OF reachable_deployed, of refusingEnv 1 1000
      "CallCreateHunt 1000000 42 86400 1209600 1000"]
  show ?thesis by simp
qed

lemma reachable_refusing_ledger2: "reachable refusingEnv ledger2"
proof -
  have "run refusingEnv ledger1 2 87400 (CallClaimTreasure 0 someProof 7)
      = run mockEnv ledger1 2 87400 (CallClaimTreasure 0 someProof 7)"
    by (simp add: claimTreasure_def mockEnv_def refusingEnv_def Let_def)
  then have "transact refusingEnv ledger1 2 87400 (CallClaimTreasure 0 someProof 7) = ledger2"
    by (simp add: ledger2_def transact_def)
  with reachable_transact [OF reachable_refusing_ledger1, of 2 87400
      "CallClaimTreasure 0 someProof 7"]
  show ?thesis by simp
qed

lemma ledgerE_eq:
  "ledgerE = \<lparr>huntCounter = 1,
      hunts = (\<lambda>_. zeroHunt)(0 :=
        \<lparr>hider = 1, locationCommitment = 42, initialPrize = 1000000, createdAt = 1000,
         claimableAfter = 87400, expiresAt = 1210600, hintPrice = 1000, status = Expired\<rparr>),
      claims = (\<lambda>_. zeroClaim),
      contributions = (\<lambda>_ _. 0), hasPurchasedHint = (\<lambda>_ _. False),
      totalContributions = (\<lambda>_. 0), funds = 0, sent = [(1, 1000000)],
      events = [HuntExpired 0, HuntCreated 0 1 42 1000000 87400]\<rparr>"
  by (simp add: ledgerE_def transact_def expireHunt_def getPotBalance_def transfer_def bindE_def
      mockEnv_def ledger1_eq deployed_def zeroClaim_def Let_def)

lemma expire_ledger1: "expireHunt mockEnv ledger1 9 1210600 0 = Inr ledgerE"
  by (simp add: ledgerE_def transact_def expireHunt_def getPotBalance_def transfer_def bindE_def
      mockEnv_def ledger1_eq deployed_def zeroClaim_def Let_def)





lemma ledgerZ3_eq:
  "ledgerZ3 = \<lparr>huntCounter = 1,
      hunts = (\<lambda>_. zeroHunt)(0 :=
        \<lparr>hider = 1, locationCommitment = 42, initialPrize = 1000, createdAt = 0,
         claimableAfter = 0, expiresAt = 3600, hintPrice = 10, status = Claimed\<rparr>),
      claims = (\<lambda>_. zeroClaim)(0 :=
        \<lparr>claimer = 2, claimTime = 0, lastWithdrawal = 0, totalWithdrawn = 500\<rparr>),
      contributions = (\<lambda>_ _. 0), hasPurchasedHint = (\<lambda>_ _. False),
      totalContributions = (\<lambda>_. 0), funds = 500, sent = [(2, 500)],
      events = [Withdrawal 0 2 500, ClaimSubmitted 0 2, HuntCreated 0 1 42 1000 0]\<rparr>"
  by (simp add: ledgerZ3_def ledgerZ2_def ledgerZ1_def transact_def createHunt_def claimTreasure_def
      withdraw_def getPotBalance_def transfer_def bindE_def mockEnv_def deployed_def zeroClaim_def
      MIN_HIDER_LOCKOUT_def MAX_HUNT_DURATION_def WITHDRAWAL_PERCENT_def UINT256_LIMIT_def Let_def)

lemma ledgerP2_eq:
  "ledgerP2 = \<lparr>huntCounter = 0,
      hunts = (\<lambda>_. zeroHunt)(0 := zeroHunt\<lparr>status := Expired\<rparr>),
      claims = (\<lambda>_. zeroClaim),
      contributions = (\<lambda>_ _. 0)(0 := (\<lambda>_. 0)(3 := 100)),
      hasPurchasedHint = (\<lambda>_ _. False)(0 := (\<lambda>_. False)(3 := True)),
      totalContributions = (\<lambda>_. 0)(0 := 100), funds = 0, sent = [(0, 100)],
      events = [HuntExpired 0, HintPurchased 0 3 100]\<rparr>"
  by (simp add: ledgerP2_def ledgerP1_def transact_def purchaseHint_def expireHunt_def
      getPotBalance_def transfer_def bindE_def mockEnv_def deployed_def zeroHunt_def zeroClaim_def
      Let_def)

lemma ledgerP4_eq:
  "ledgerP4 = \<lparr>huntCounter = 1,
      hunts = (\<lambda>_. zeroHunt)(0 :=
        \<lparr>hider = 1, locationCommitment = 42, initialPrize = 2, createdAt = 30,
         claimableAfter = 30, expiresAt = 3630, hintPrice = 10, status = Claimed\<rparr>),
      claims = (\<lambda>_. zeroClaim)(0 :=
        \<lparr>claimer = 2, claimTime = 40, lastWithdrawal = 0, totalWithdrawn = 0\<rparr>),
      contributions = (\<lambda>_ _. 0)(0 := (\<lambda>_. 0)(3 := 100)),
      hasPurchasedHint = (\<lambda>_ _. False)(0 := (\<lambda>_. False)(3 := True)),
      totalContributions = (\<lambda>_. 0)(0 := 100), funds = 2, sent = [(0, 100)],
      events = [ClaimSubmitted 0 2, HuntCreated 0 1 42 2 30, HuntExpired 0,
                HintPurchased 0 3 100]\<rparr>"
  by (simp add: ledgerP4_def ledgerP3_def transact_def createHunt_def claimTreasure_def
      bindE_def mockEnv_def ledgerP2_eq zeroClaim_def MIN_HIDER_LOCKOUT_def MAX_HUNT_DURATION_def
      Let_def)

lemma reachable_ledgerP4: "reachable mockEnv ledgerP4"
  unfolding ledgerP4_def ledgerP3_def ledgerP2_def ledgerP1_def
  by (intro reachable_transact reachable_deployed)

lemma withdraw_ledgerZ2: "succeeds (withdraw mockEnv ledgerZ2 2 0 0)"
  by (simp add: ledgerZ2_def ledgerZ1_def transact_def createHunt_def claimTreasure_def
      withdraw_def getPotBalance_def transfer_def bindE_def mockEnv_def deployed_def zeroClaim_def
      zeroHunt_def MIN_HIDER_LOCKOUT_def MAX_HUNT_DURATION_def WITHDRAWAL_PERCENT_def UINT256_LIMIT_def Let_def
      succeeds_def)

lemma ledgerO2_eq:
  "ledgerO2 = \<lparr>huntCounter = 1,
      hunts = (\<lambda>_. zeroHunt)(0 :=
        \<lparr>hider = 1, locationCommitment = 42, initialPrize = 2 ^ 255, createdAt = 1000,
         claimableAfter = 1000, expiresAt = 4600, hintPrice = 10, status = Claimed\<rparr>),
      claims = (\<lambda>_. zeroClaim)(0 :=
        \<lparr>claimer = 2, claimTime = 1000, lastWithdrawal = 0, totalWithdrawn = 0\<rparr>),
      contributions = (\<lambda>_ _. 0), hasPurchasedHint = (\<lambda>_ _. False),
      totalContributions = (\<lambda>_. 0), funds = 2 ^ 255, sent = [],
      events = [ClaimSubmitted 0 2, HuntCreated 0 1 42 (2 ^ 255) 1000]\<rparr>"
  by (simp add: ledgerO2_def ledgerO1_def transact_def createHunt_def claimTreasure_def
      bindE_def mockEnv_def deployed_def zeroClaim_def MIN_HIDER_LOCKOUT_def
      MAX_HUNT_DURATION_def Let_def)

lemma reachable_ledgerO2: "reachable mockEnv ledgerO2"
  unfolding ledgerO2_def ledgerO1_def
  by (intro reachable_transact reachable_deployed)



lemma withdraw_shrinks_pot:
  assumes "withdraw E s a now i = Inr s'"
  shows "getPotBalance s' i \<le> getPotBalance s i"
  using assms by (auto simp: withdraw_Inr_iff getPotBalance_def Let_def)

lemma ledgerU1_eq:
  "ledgerU1 = deployed\<lparr>hunts := (hunts deployed)(0 := zeroHunt\<lparr>status := Expired\<rparr>),
      events := [HuntExpired 0]\<rparr>"
  by (simp add: ledgerU1_def transact_def expireHunt_def getPotBalance_def bindE_def
      deployed_def zeroHunt_def zeroClaim_def Let_def)

lemma reachable_ledgerU1: "reachable mockEnv ledgerU1"
  unfolding ledgerU1_def by (rule reachable_transact [OF reachable_deployed])

section \<open>Field arithmetic of the circuit\<close>

text \<open>
  Reduction modulo the prime commutes with the field operations, so the circuit computes the
  integer squared distance as long as it stays below the prime; \<open>LessThan(64)\<close> on values
  below \<open>2 ^ 64\<close> is the strict comparison.
\<close>

lemma FIELD_PRIME_large: "2 ^ 66 < FIELD_PRIME"
  by (simp add: FIELD_PRIME_def)

lemma FIELD_PRIME_pos: "0 < FIELD_PRIME"
  by (simp add: FIELD_PRIME_def)

lemma int_to_field: "int (to_field x) = x mod int FIELD_PRIME"
  using FIELD_PRIME_pos by (simp add: to_field_def)

lemma to_field_small: "0 \<le> x \<Longrightarrow> x < int FIELD_PRIME \<Longrightarrow> to_field x = nat x"
  by (simp add: to_field_def)

lemma to_field_lt: "to_field x < FIELD_PRIME"
proof -
  have "int (to_field x) < int FIELD_PRIME"
    unfolding int_to_field using FIELD_PRIME_pos by simp
  then show ?thesis by simp
qed

lemma fadd_to_field: "fadd (to_field a) (to_field b) = to_field (a + b)"
proof -
  have "int (fadd (to_field a) (to_field b)) = int (to_field (a + b))"
    by (simp add: fadd_def int_to_field zmod_int mod_add_eq)
  then show ?thesis by simp
qed

lemma fmul_to_field: "fmul (to_field a) (to_field b) = to_field (a * b)"
proof -
  have "int (fmul (to_field a) (to_field b)) = int (to_field (a * b))"
    by (simp add: fmul_def int_to_field zmod_int mod_mult_eq)
  then show ?thesis by simp
qed

lemma fsub_to_field: "fsub (to_field a) (to_field b) = to_field (a - b)"
proof -
  let ?p = "int FIELD_PRIME"
  have lt: "to_field b < FIELD_PRIME" by (rule to_field_lt)
  then have "int (FIELD_PRIME - to_field b mod FIELD_PRIME) = ?p - b mod ?p"
    by (simp add: int_to_field)
  then have "int (fsub (to_field a) (to_field b)) = (a mod ?p + (?p - b mod ?p)) mod ?p"
    by (simp add: fsub_def zmod_int int_to_field)
  also have "a mod ?p + (?p - b mod ?p) = (a mod ?p - b mod ?p) + ?p"
    by simp
  also have "((a mod ?p - b mod ?p) + ?p) mod ?p = (a mod ?p - b mod ?p) mod ?p"
    by (rule mod_add_self2)
  also have "\<dots> = (a - b) mod ?p"
    by (rule mod_diff_eq)
  finally have "int (fsub (to_field a) (to_field b)) = int (to_field (a - b))"
    by (simp add: int_to_field)
  then show ?thesis by simp
qed


lemma LessThan_64:
  assumes "0 \<le> D" and "D < 2 ^ 64" and "0 \<le> r" and "r < 2 ^ 64"
  shows "LessThan 64 (to_field D) (to_field r) = Some (if D < r then 1 else 0)"
proof -
  have p: "(2::int) ^ 66 < int FIELD_PRIME"
    using FIELD_PRIME_large by (metis of_nat_less_iff of_nat_numeral of_nat_power)
  have two: "(2::nat) ^ 64 = to_field (2 ^ 64)"
    using p by (simp add: to_field_small)
  have v: "fsub (fadd (to_field D) (2 ^ 64)) (to_field r) = to_field (D + 2 ^ 64 - r)"
    by (simp only: two fadd_to_field fsub_to_field)
  have rng: "0 \<le> D + 2 ^ 64 - r" "D + 2 ^ 64 - r < 2 ^ 65"
    using assms by simp_all
  with p have small: "to_field (D + 2 ^ 64 - r) = nat (D + 2 ^ 64 - r)"
    by (intro to_field_small) simp_all
  have lt: "nat (D + 2 ^ 64 - r) < 2 ^ (64 + 1)"
    using rng by (simp add: nat_less_iff)
  have top: "nat (D + 2 ^ 64 - r) div 2 ^ 64 = (if D < r then 0 else 1)"
  proof (cases "D < r")
    case True
    then have "nat (D + 2 ^ 64 - r) < 2 ^ 64" using rng by (simp add: nat_less_iff)
    with True show ?thesis by simp
  next
    case False
    then have ge: "2 ^ 64 \<le> nat (D + 2 ^ 64 - r)" using rng by (simp add: le_nat_iff)
    have "nat (D + 2 ^ 64 - r) < 2 * 2 ^ 64" using lt by simp
    with ge have "nat (D + 2 ^ 64 - r) div 2 ^ 64 = 1"
      by (simp add: div_nat_eqI)
    with False show ?thesis by simp
  qed
  show ?thesis
    unfolding LessThan_def Let_def v small using lt top by simp
qed


lemma square_bound:
  fixes x :: int
  assumes "\<bar>x\<bar> \<le> 2 ^ 31"
  shows "0 \<le> x * x" and "x * x \<le> 2 ^ 62"
proof -
  show "0 \<le> x * x" by simp
  have "\<bar>x\<bar> * \<bar>x\<bar> \<le> 2 ^ 31 * 2 ^ 31"
    using assms by (intro mult_mono) simp_all
  then show "x * x \<le> 2 ^ 62" by simp
qed

lemma DistanceCheck_strict:
  assumes "\<bar>gpsLat - targetLat\<bar> \<le> 2 ^ 31" and "\<bar>gpsLon - targetLon\<bar> \<le> 2 ^ 31"
    and "0 \<le> radiusSquared" and "radiusSquared < 2 ^ 64"
  shows "distanceAccepted gpsLat gpsLon targetLat targetLon radiusSquared
     \<longleftrightarrow> distanceSquared gpsLat gpsLon targetLat targetLon < radiusSquared"
proof -
  let ?D = "distanceSquared gpsLat gpsLon targetLat targetLon"
  have D: "0 \<le> ?D" "?D < 2 ^ 64"
    using square_bound [OF assms(1)] square_bound [OF assms(2)]
    by (simp_all add: distanceSquared_def Let_def)
  have "DistanceCheck (to_field gpsLat) (to_field gpsLon) (to_field targetLat) (to_field targetLon)
          (to_field radiusSquared) = LessThan 64 (to_field ?D) (to_field radiusSquared)"
    by (simp add: DistanceCheck_def distanceSquared_def Let_def fsub_to_field fmul_to_field
        fadd_to_field)
  also have "\<dots> = Some (if ?D < radiusSquared then 1 else 0)"
    using D assms(3,4) by (rule LessThan_64)
  finally show ?thesis by (simp add: distanceAccepted_def)
qed

section \<open>Properties\<close>

subsection \<open>Claiming\<close>

text \<open>
  C1. \<open>claimTreasure\<close> succeeds only when the hunt is Active, the time is within
  \<open>claimableAfter \<le> now < expiresAt\<close>, the verifier accepts the proof with the claim
  commitment and the hunt has no claimer yet (in a reachable ledger, no claim record at all).
  On success the claim record holds the caller and the time and the hunt is Claimed. After a
  successful claim on a reachable ledger, in every later ledger each further
  \<open>claimTreasure\<close> on that hunt reverts, the transaction leaves the ledger as it was, and
  claimer and claim time are still those of the one claim.
\<close>

theorem claimTreasure_single_claim:
  "(claimTreasure E s a now i p cc = Inr s' \<longrightarrow>
      status (hunts s i) = Active \<and> claimableAfter (hunts s i) \<le> now \<and> now < expiresAt (hunts s i)
      \<and> verifyProof E p cc \<and> claimer (claims s i) = 0
      \<and> claims s' i = \<lparr>claimer = a, claimTime = now, lastWithdrawal = 0, totalWithdrawn = 0\<rparr>
      \<and> status (hunts s' i) = Claimed)
   \<and> (reachable E s \<longrightarrow> claimTreasure E s a now i p cc = Inr s' \<longrightarrow> claims s i = zeroClaim)
   \<and> (reachable E s \<longrightarrow> claimTreasure E s a now i p cc = Inr s' \<longrightarrow> steps E s' t \<longrightarrow>
        claimTreasure E t a' now' i p' cc' = Inl (Revert ''Hunt not active'')
        \<and> transact E t a' now' (CallClaimTreasure i p' cc') = t
        \<and> claimer (claims t i) = a \<and> claimTime (claims t i) = now)"
proof (intro conjI impI)
  assume ok: "claimTreasure E s a now i p cc = Inr s'"
  then show "status (hunts s i) = Active" "claimableAfter (hunts s i) \<le> now"
    "now < expiresAt (hunts s i)" "verifyProof E p cc" "claimer (claims s i) = 0"
    "claims s' i = \<lparr>claimer = a, claimTime = now, lastWithdrawal = 0, totalWithdrawn = 0\<rparr>"
    "status (hunts s' i) = Claimed"
    by (simp_all add: claimTreasure_Inr_iff)
next
  assume r: "reachable E s" and ok: "claimTreasure E s a now i p cc = Inr s'"
  from ok have "status (hunts s i) = Active" by (simp add: claimTreasure_Inr_iff)
  with reachable_inv [OF r, of i] show "claims s i = zeroClaim" by (simp add: hunt_inv_def)
next
  assume r: "reachable E s" and ok: "claimTreasure E s a now i p cc = Inr s'"
    and st: "steps E s' t"
  have inv': "hunt_inv s' i"
    using hunt_inv_claimTreasure [OF reachable_inv [OF r] ok] .
  from ok have s': "status (hunts s' i) = Claimed" "claimer (claims s' i) = a"
    "claimTime (claims s' i) = now"
    by (simp_all add: claimTreasure_Inr_iff)
  have reg: "i < huntCounter s'" using claimed_registered [OF inv' s'(1)] .
  from terminal_steps [OF st reg] s'
  have t: "status (hunts t i) = Claimed" "claimer (claims t i) = a" "claimTime (claims t i) = now"
    by simp_all
  then show "claimer (claims t i) = a" "claimTime (claims t i) = now" by simp_all
  from t(1) show fail: "claimTreasure E t a' now' i p' cc' = Inl (Revert ''Hunt not active'')"
    by (simp add: claimTreasure_def)
  then show "transact E t a' now' (CallClaimTreasure i p' cc') = t"
    by (simp add: transact_def)
qed

theorem claimTreasure_single_claim_witness:
  "claimTreasure mockEnv ledger1 2 87400 0 someProof 7 = Inr ledger2
   \<and> reachable mockEnv ledger1 \<and> steps mockEnv ledger2 ledger3
   \<and> status (hunts ledger1 0) = Active \<and> claims ledger1 0 = zeroClaim
   \<and> claims ledger2 0 = \<lparr>claimer = 2, claimTime = 87400, lastWithdrawal = 0, totalWithdrawn = 0\<rparr>
   \<and> status (hunts ledger2 0) = Claimed
   \<and> claimTreasure mockEnv ledger3 3 90000 0 someProof 9 = Inl (Revert ''Hunt not active'')
   \<and> transact mockEnv ledger3 3 90000 (CallClaimTreasure 0 someProof 9) = ledger3
   \<and> claimer (claims ledger3 0) = 2 \<and> claimTime (claims ledger3 0) = 87400"
proof -
  have r: "reachable mockEnv ledger1"
    unfolding ledger1_def by (rule reachable_transact [OF reachable_deployed])
  have st: "steps mockEnv ledger2 ledger3"
    unfolding ledger3_def by (rule steps_transact [OF steps_refl])
  from claimTreasure_single_claim [of mockEnv ledger1 2 87400 0 someProof 7 ledger2 ledger3 3 90000 someProof 9]
    claim_ledger1 r st
  show ?thesis by simp
qed

text \<open>
  C2. On a reachable ledger, a hunt that is Active and within its claim window is claimed by
  any caller with any pair of proof and claim commitment the verifier accepts: the commitment
  stored with the hunt and the caller's identity are not compared with anything. Replacing the
  stored location commitment by any other value changes neither whether the call succeeds
  nor its error, and the ledger written is the same one with the commitment replaced.
\<close>

theorem claimTreasure_no_binding_check:
  "(reachable E s \<longrightarrow> status (hunts s i) = Active \<longrightarrow> claimableAfter (hunts s i) \<le> now
      \<longrightarrow> now < expiresAt (hunts s i) \<longrightarrow> verifyProof E p cc
      \<longrightarrow> succeeds (claimTreasure E s a now i p cc))
   \<and> claimTreasure E (replaceLocationCommitment s i lc) a now i p cc
       = map_sum id (\<lambda>s'. replaceLocationCommitment s' i lc) (claimTreasure E s a now i p cc)"
proof (intro conjI impI)
  assume r: "reachable E s" and a: "status (hunts s i) = Active"
    "claimableAfter (hunts s i) \<le> now" "now < expiresAt (hunts s i)" "verifyProof E p cc"
  from reachable_inv [OF r, of i] a(1) have "claimer (claims s i) = 0"
    by (simp add: hunt_inv_def zeroClaim_def)
  with a show "succeeds (claimTreasure E s a now i p cc)"
    by (simp add: claimTreasure_def succeeds_def)
next
  show "claimTreasure E (replaceLocationCommitment s i lc) a now i p cc
            = map_sum id (\<lambda>s'. replaceLocationCommitment s' i lc) (claimTreasure E s a now i p cc)"
  proof -
    have h: "(hunts s i)\<lparr>locationCommitment := lc, status := Claimed\<rparr>
               = (hunts s i)\<lparr>status := Claimed, locationCommitment := lc\<rparr>"
      by (rule Hunt.equality) simp_all
    show "claimTreasure E (replaceLocationCommitment s i lc) a now i p cc
            = map_sum id (\<lambda>s'. replaceLocationCommitment s' i lc) (claimTreasure E s a now i p cc)"
      unfolding claimTreasure_def replaceLocationCommitment_def Let_def
      by (auto intro!: ledger.equality simp: h)
  qed
qed


theorem claimTreasure_no_binding_check_witness:
  "reachable mockEnv ledger1 \<and> status (hunts ledger1 0) = Active
   \<and> claimableAfter (hunts ledger1 0) \<le> 87400 \<and> 87400 < expiresAt (hunts ledger1 0)
   \<and> verifyProof mockEnv someProof 7
   \<and> succeeds (claimTreasure mockEnv ledger1 5 87400 0 someProof 7)"
proof -
  have r: "reachable mockEnv ledger1"
    unfolding ledger1_def by (rule reachable_transact [OF reachable_deployed])
  have h: "status (hunts ledger1 0) = Active" "claimableAfter (hunts ledger1 0) \<le> 87400"
    "87400 < expiresAt (hunts ledger1 0)" "verifyProof mockEnv someProof 7"
    by (simp_all add: ledger1_eq mockEnv_def)
  from claimTreasure_no_binding_check [of mockEnv ledger1 0 87400 someProof 7 5] r h
  show ?thesis by simp
qed


subsection \<open>The pot\<close>



text \<open>
  C4. A withdrawal that succeeds found a positive pot \<open>B\<close>; it pays the caller
  \<open>released B\<close>, the floor of \<open>B * 50 / 100\<close> or all of \<open>B\<close> when that floor is zero, adds
  exactly that amount to \<open>totalWithdrawn\<close> and sets \<open>lastWithdrawal\<close> to the time of the
  call. The amount is never above half the pot rounded down, except for the sweep of a pot
  of one.
\<close>

theorem withdraw_releases_half:
  assumes "withdraw E s a now i = Inr s'"
  shows "0 < getPotBalance s i
     \<and> sent s' = (a, released (getPotBalance s i)) # sent s
     \<and> funds s' + released (getPotBalance s i) = funds s
     \<and> events s' = Withdrawal i a (released (getPotBalance s i)) # events s
     \<and> totalWithdrawn (claims s' i) = totalWithdrawn (claims s i) + released (getPotBalance s i)
     \<and> lastWithdrawal (claims s' i) = now
     \<and> released (getPotBalance s i)
          = (if getPotBalance s i * 50 div 100 = 0 then getPotBalance s i
             else getPotBalance s i * 50 div 100)
     \<and> (getPotBalance s i * 50 div 100 = 0 \<or> released (getPotBalance s i) * 100 \<le> getPotBalance s i * 50)
     \<and> 0 < released (getPotBalance s i)
     \<and> released (getPotBalance s i) \<le> getPotBalance s i"
proof -
  have floor: "B * 50 div 100 = 0 \<or> released B * 100 \<le> B * 50" for B
    by (simp add: released_def)
  from assms have pos: "0 < getPotBalance s i" by (simp add: withdraw_Inr_iff)
  have "released (getPotBalance s i)
          = (if getPotBalance s i * 50 div 100 = 0 then getPotBalance s i
             else getPotBalance s i * 50 div 100)"
    by (simp add: released_def)
  with assms pos floor [of "getPotBalance s i"] released_le [of "getPotBalance s i"]
    released_pos [OF pos]
  show ?thesis by (simp add: withdraw_Inr_iff)
qed

theorem withdraw_releases_half_witness:
  "withdraw mockEnv ledger2 2 87400 0 = Inr ledger3
   \<and> getPotBalance ledger2 0 = 1000000
   \<and> sent ledger3 = [(2, 500000)]
   \<and> totalWithdrawn (claims ledger3 0) = 500000
   \<and> lastWithdrawal (claims ledger3 0) = 87400
   \<and> getPotBalance ledger3 0 = 500000"
proof -
  have "sent ledger2 = []" "totalWithdrawn (claims ledger2 0) = 0"
    by (simp_all add: ledger2_eq)
  with withdraw_releases_half [OF withdraw_ledger2] getPotBalance_ledger2
  show ?thesis by (simp add: withdraw_ledger2 getPotBalance_def ledger3_eq)
qed

subsection \<open>Expiry\<close>

text \<open>
  C10, as claimed: after every \<open>expireHunt\<close> that succeeds, \<open>getPotBalance\<close> of the
  hunt is the same positive value as before. A run shows otherwise: on the deployed contract
  \<open>expireHunt\<close> succeeds on hunt id 0, which nobody has registered and nobody has
  contributed to; its pot is 0 before and after, and nothing is paid.
\<close>

theorem expireHunt_pot_counterexample:
  "expireHunt mockEnv deployed 9 500 0 = Inr ledgerU1
   \<and> getPotBalance deployed 0 = 0 \<and> getPotBalance ledgerU1 0 = 0
   \<and> sent ledgerU1 = []"
proof -
  have 1: "expireHunt mockEnv deployed 9 500 0 = Inr ledgerU1"
    by (simp add: ledgerU1_def transact_def expireHunt_def getPotBalance_def bindE_def
        deployed_def zeroHunt_def zeroClaim_def Let_def)
  have 2: "getPotBalance deployed 0 = 0" "getPotBalance ledgerU1 0 = 0" "sent ledgerU1 = []"
    by (simp_all add: ledgerU1_eq getPotBalance_def deployed_def zeroHunt_def zeroClaim_def)
  from 1 2 show ?thesis by simp
qed

text \<open>
  C10, amended: an \<open>expireHunt\<close> that succeeds writes one thing to storage, the status of
  the hunt: counter, claim records, contributions, purchase flags and running totals are as
  before, and so are the prize of the hunt and what was withdrawn from it. The refund is paid
  out of the contract's funds and not entered in \<open>totalWithdrawn\<close>, so \<open>getPotBalance\<close>
  of the expired hunt is what it was before the call; for a registered hunt of a reachable
  ledger that is a positive amount, the one just paid to the creator.
\<close>

theorem expireHunt_frame:
  "(expireHunt E s a now i = Inr s' \<longrightarrow>
      hunts s' = (hunts s)(i := (hunts s i)\<lparr>status := Expired\<rparr>)
      \<and> huntCounter s' = huntCounter s \<and> claims s' = claims s
      \<and> contributions s' = contributions s \<and> totalContributions s' = totalContributions s
      \<and> hasPurchasedHint s' = hasPurchasedHint s
      \<and> initialPrize (hunts s' i) = initialPrize (hunts s i)
      \<and> totalWithdrawn (claims s' i) = totalWithdrawn (claims s i)
      \<and> getPotBalance s' i = getPotBalance s i
      \<and> (0 < getPotBalance s i \<longrightarrow>
            sent s' = (hider (hunts s i), getPotBalance s i) # sent s
            \<and> funds s' + getPotBalance s i = funds s))
   \<and> (reachable E s \<longrightarrow> i < huntCounter s \<longrightarrow> expireHunt E s a now i = Inr s' \<longrightarrow>
        0 < getPotBalance s' i)"
proof -
  have 1: "expireHunt E s a now i = Inr s' \<longrightarrow>
      hunts s' = (hunts s)(i := (hunts s i)\<lparr>status := Expired\<rparr>)
      \<and> huntCounter s' = huntCounter s \<and> claims s' = claims s
      \<and> contributions s' = contributions s \<and> totalContributions s' = totalContributions s
      \<and> hasPurchasedHint s' = hasPurchasedHint s
      \<and> initialPrize (hunts s' i) = initialPrize (hunts s i)
      \<and> totalWithdrawn (claims s' i) = totalWithdrawn (claims s i)
      \<and> getPotBalance s' i = getPotBalance s i
      \<and> (0 < getPotBalance s i \<longrightarrow>
            sent s' = (hider (hunts s i), getPotBalance s i) # sent s
            \<and> funds s' + getPotBalance s i = funds s)"
    by (auto simp: expireHunt_Inr_iff getPotBalance_def split: if_splits)
  have 2: "reachable E s \<longrightarrow> i < huntCounter s \<longrightarrow> expireHunt E s a now i = Inr s' \<longrightarrow>
        0 < getPotBalance s' i"
  proof (intro impI)
    assume r: "reachable E s" and reg: "i < huntCounter s"
      and ok: "expireHunt E s a now i = Inr s'"
    from ok have act: "status (hunts s i) = Active" by (simp add: expireHunt_Inr_iff)
    with reachable_inv [OF r, of i] reg
    have "0 < initialPrize (hunts s i)" "totalWithdrawn (claims s i) = 0"
      by (simp_all add: hunt_inv_def zeroClaim_def)
    then have "0 < getPotBalance s i" by (simp add: getPotBalance_def)
    with ok 1 show "0 < getPotBalance s' i" by simp
  qed
  show ?thesis by (rule conjI [OF 1 2])
qed

theorem expireHunt_frame_witness:
  "expireHunt mockEnv ledger1 9 1210600 0 = Inr ledgerE
   \<and> reachable mockEnv ledger1 \<and> 0 < huntCounter ledger1
   \<and> claims ledgerE = claims ledger1 \<and> totalContributions ledgerE = totalContributions ledger1
   \<and> status (hunts ledgerE 0) = Expired
   \<and> getPotBalance ledger1 0 = 1000000 \<and> getPotBalance ledgerE 0 = 1000000
   \<and> sent ledgerE = [(1, 1000000)] \<and> funds ledgerE = 0"
proof -
  have h: "0 < huntCounter ledger1" "getPotBalance ledger1 0 = 1000000" "sent ledger1 = []"
    "hider (hunts ledger1 0) = 1" "funds ledger1 = 1000000"
    by (simp_all add: ledger1_eq getPotBalance_def deployed_def zeroClaim_def)
  from expireHunt_frame [of mockEnv ledger1 9 1210600 0 ledgerE] expire_ledger1 reachable_ledger1 h
  show ?thesis by simp
qed

subsection \<open>Registration\<close>




subsection \<open>Hints\<close>



subsection \<open>Withdrawal cadence\<close>

text \<open>
  C5, as claimed: \<open>withdraw\<close> succeeds exactly when the hunt is Claimed, the caller is the
  claimer, the pot is positive and the interval has passed or nothing was withdrawn yet, and
  a second withdrawal within the interval fails. Four runs show otherwise. On the claimed
  hunt of \<open>ledger2\<close> the four conditions hold for account 2, and its withdrawal reverts
  when the account is a contract that does not take the transfer. In \<open>ledgerP4\<close>, reached
  with every account accepting, the four conditions hold as well, but the pot of 102 counts
  the 100 that the contract has sent away, and the withdrawal of 51 reverts because the
  contract holds 2. In \<open>ledgerO2\<close> the four conditions hold, the contract holds the whole
  pot of \<open>2 ^ 255\<close> and every account accepts, and the withdrawal panics on the product
  of the pot and 50. And in the run at timestamp 0 the first withdrawal leaves
  \<open>lastWithdrawal = 0\<close>, which is the mark for no withdrawal yet, so a second one at the
  same time succeeds.
\<close>

theorem withdraw_iff_counterexample:
  "reachable refusingEnv ledger2
   \<and> status (hunts ledger2 0) = Claimed \<and> claimer (claims ledger2 0) = 2
   \<and> 0 < getPotBalance ledger2 0 \<and> lastWithdrawal (claims ledger2 0) = 0
   \<and> withdraw refusingEnv ledger2 2 87400 0 = Inl TransferFailed
   \<and> \<not> succeeds (withdraw refusingEnv ledger2 2 87400 0)
   \<and> reachable mockEnv ledgerP4
   \<and> status (hunts ledgerP4 0) = Claimed \<and> claimer (claims ledgerP4 0) = 2
   \<and> getPotBalance ledgerP4 0 = 102 \<and> lastWithdrawal (claims ledgerP4 0) = 0
   \<and> funds ledgerP4 = 2
   \<and> withdraw mockEnv ledgerP4 2 50 0 = Inl TransferFailed
   \<and> \<not> succeeds (withdraw mockEnv ledgerP4 2 50 0)
   \<and> reachable mockEnv ledgerO2
   \<and> status (hunts ledgerO2 0) = Claimed \<and> claimer (claims ledgerO2 0) = 2
   \<and> getPotBalance ledgerO2 0 = 2 ^ 255 \<and> lastWithdrawal (claims ledgerO2 0) = 0
   \<and> funds ledgerO2 = 2 ^ 255
   \<and> withdraw mockEnv ledgerO2 2 1000 0 = Inl Panic
   \<and> \<not> succeeds (withdraw mockEnv ledgerO2 2 1000 0)
   \<and> withdraw mockEnv ledgerZ2 2 0 0 = Inr ledgerZ3
   \<and> (0::nat) < 0 + WITHDRAWAL_INTERVAL
   \<and> succeeds (withdraw mockEnv ledgerZ3 2 0 0)"
proof -
  have 1: "status (hunts ledger2 0) = Claimed \<and> claimer (claims ledger2 0) = 2
      \<and> 0 < getPotBalance ledger2 0 \<and> lastWithdrawal (claims ledger2 0) = 0"
    by (simp add: ledger2_eq getPotBalance_def)
  have 2: "withdraw refusingEnv ledger2 2 87400 0 = Inl TransferFailed"
    by (simp add: withdraw_def getPotBalance_def transfer_def bindE_def refusingEnv_def
        WITHDRAWAL_PERCENT_def UINT256_LIMIT_def ledger2_eq Let_def)
  have 3: "withdraw mockEnv ledgerZ2 2 0 0 = Inr ledgerZ3"
    using withdraw_ledgerZ2
    by (cases "withdraw mockEnv ledgerZ2 2 0 0") (simp_all add: ledgerZ3_def transact_def succeeds_def)
  have 4: "succeeds (withdraw mockEnv ledgerZ3 2 0 0)"
    by (simp add: withdraw_def getPotBalance_def transfer_def bindE_def mockEnv_def
        WITHDRAWAL_PERCENT_def UINT256_LIMIT_def ledgerZ3_eq Let_def succeeds_def)
  have 5: "status (hunts ledgerP4 0) = Claimed \<and> claimer (claims ledgerP4 0) = 2
      \<and> getPotBalance ledgerP4 0 = 102 \<and> lastWithdrawal (claims ledgerP4 0) = 0
      \<and> funds ledgerP4 = 2"
    by (simp add: ledgerP4_eq getPotBalance_def)
  have 6: "withdraw mockEnv ledgerP4 2 50 0 = Inl TransferFailed"
    by (simp add: withdraw_def getPotBalance_def transfer_def bindE_def mockEnv_def
        WITHDRAWAL_PERCENT_def UINT256_LIMIT_def ledgerP4_eq Let_def)
  have 7: "status (hunts ledgerO2 0) = Claimed \<and> claimer (claims ledgerO2 0) = 2
      \<and> getPotBalance ledgerO2 0 = 2 ^ 255 \<and> lastWithdrawal (claims ledgerO2 0) = 0
      \<and> funds ledgerO2 = 2 ^ 255"
    by (simp add: ledgerO2_eq getPotBalance_def)
  have 8: "withdraw mockEnv ledgerO2 2 1000 0 = Inl Panic"
    by (simp add: withdraw_def getPotBalance_def WITHDRAWAL_PERCENT_def UINT256_LIMIT_def
        ledgerO2_eq Let_def)
  have 9: "(0::nat) < 0 + WITHDRAWAL_INTERVAL" by (simp add: WITHDRAWAL_INTERVAL_def)
  show ?thesis
    unfolding 2 6 8
    using 1 3 4 5 7 9 reachable_ledgerP4 reachable_refusing_ledger2 reachable_ledgerO2
    by (simp add: succeeds_def)
qed

text \<open>
  C5, amended: \<open>withdraw\<close> succeeds exactly when the hunt is Claimed, the caller is the
  claimer, the pot is positive, the interval has passed or \<open>lastWithdrawal\<close> is 0, the
  product of the pot and 50 fits \<open>uint256\<close>, and the transfer of the amount goes through
  (the contract holds it and the caller takes it then). After a withdrawal at a time other
  than 0, every withdrawal on the hunt before the interval has passed fails, with Withdrawal
  too soon for the claimer, and leaves the ledger as it was; one by the claimer at or after
  the interval succeeds when the pot is still positive, the contract holds the amount and
  the caller takes that transfer.
\<close>

theorem withdraw_succeeds_iff:
  "(succeeds (withdraw E s a now i) \<longleftrightarrow>
      status (hunts s i) = Claimed \<and> claimer (claims s i) = a \<and> 0 < getPotBalance s i
      \<and> (lastWithdrawal (claims s i) = 0 \<or> lastWithdrawal (claims s i) + WITHDRAWAL_INTERVAL \<le> now)
      \<and> getPotBalance s i * 50 < UINT256_LIMIT
      \<and> released (getPotBalance s i) \<le> funds s
      \<and> accepts E now a (released (getPotBalance s i)))
   \<and> (withdraw E s a now i = Inr s' \<longrightarrow> 0 < now \<longrightarrow> now' < now + WITHDRAWAL_INTERVAL \<longrightarrow>
        \<not> succeeds (withdraw E s' a' now' i)
        \<and> transact E s' a' now' (CallWithdraw i) = s'
        \<and> withdraw E s' a now' i = Inl (Revert ''Withdrawal too soon''))
   \<and> (withdraw E s a now i = Inr s' \<longrightarrow> now + WITHDRAWAL_INTERVAL \<le> now' \<longrightarrow>
        0 < getPotBalance s' i \<longrightarrow> released (getPotBalance s' i) \<le> funds s' \<longrightarrow>
        accepts E now' a (released (getPotBalance s' i)) \<longrightarrow>
        succeeds (withdraw E s' a now' i))"
proof -
  have iff: "succeeds (withdraw E s a now i) \<longleftrightarrow>
      status (hunts s i) = Claimed \<and> claimer (claims s i) = a \<and> 0 < getPotBalance s i
      \<and> (lastWithdrawal (claims s i) = 0 \<or> lastWithdrawal (claims s i) + WITHDRAWAL_INTERVAL \<le> now)
      \<and> getPotBalance s i * 50 < UINT256_LIMIT
      \<and> released (getPotBalance s i) \<le> funds s
      \<and> accepts E now a (released (getPotBalance s i))" for s a now
    unfolding succeeds_Inr_iff withdraw_Inr_iff by auto
  have after: "status (hunts s' i) = Claimed \<and> claimer (claims s' i) = a
      \<and> lastWithdrawal (claims s' i) = now \<and> getPotBalance s' i * 50 < UINT256_LIMIT"
    if ok: "withdraw E s a now i = Inr s'"
  proof -
    from ok have "getPotBalance s i * 50 < UINT256_LIMIT" by (simp add: withdraw_Inr_iff)
    with withdraw_shrinks_pot [OF ok] have "getPotBalance s' i * 50 < UINT256_LIMIT" by simp
    with ok show ?thesis by (auto simp: withdraw_Inr_iff)
  qed
  have 2: "withdraw E s a now i = Inr s' \<longrightarrow> 0 < now \<longrightarrow> now' < now + WITHDRAWAL_INTERVAL \<longrightarrow>
        \<not> succeeds (withdraw E s' a' now' i)
        \<and> transact E s' a' now' (CallWithdraw i) = s'
        \<and> withdraw E s' a now' i = Inl (Revert ''Withdrawal too soon'')"
  proof (intro impI)
    assume ok: "withdraw E s a now i = Inr s'" and pos: "0 < now"
      and soon: "now' < now + WITHDRAWAL_INTERVAL"
    from after [OF ok] pos soon have f: "\<not> succeeds (withdraw E s' a' now' i)"
      by (simp add: iff)
    then have "transact E s' a' now' (CallWithdraw i) = s'"
      by (simp add: transact_failed)
    moreover from after [OF ok] pos soon
    have "withdraw E s' a now' i = Inl (Revert ''Withdrawal too soon'')"
      by (simp add: withdraw_def Let_def)
    ultimately show "\<not> succeeds (withdraw E s' a' now' i)
        \<and> transact E s' a' now' (CallWithdraw i) = s'
        \<and> withdraw E s' a now' i = Inl (Revert ''Withdrawal too soon'')"
      using f by simp
  qed
  have 3: "withdraw E s a now i = Inr s' \<longrightarrow> now + WITHDRAWAL_INTERVAL \<le> now' \<longrightarrow>
        0 < getPotBalance s' i \<longrightarrow> released (getPotBalance s' i) \<le> funds s' \<longrightarrow>
        accepts E now' a (released (getPotBalance s' i)) \<longrightarrow>
        succeeds (withdraw E s' a now' i)"
  proof (intro impI)
    assume ok: "withdraw E s a now i = Inr s'" and "now + WITHDRAWAL_INTERVAL \<le> now'"
      "0 < getPotBalance s' i" "released (getPotBalance s' i) \<le> funds s'"
      "accepts E now' a (released (getPotBalance s' i))"
    with after [OF ok] show "succeeds (withdraw E s' a now' i)" by (simp add: iff)
  qed
  show ?thesis by (rule conjI [OF iff conjI [OF 2 3]])
qed

theorem withdraw_succeeds_iff_witness:
  "succeeds (withdraw mockEnv ledger2 2 87400 0)
   \<and> withdraw mockEnv ledger2 2 87400 0 = Inr ledger3
   \<and> (0::nat) < 87400 \<and> (87400::nat) < 87400 + WITHDRAWAL_INTERVAL
   \<and> withdraw mockEnv ledger3 2 87400 0 = Inl (Revert ''Withdrawal too soon'')
   \<and> transact mockEnv ledger3 2 87400 (CallWithdraw 0) = ledger3
   \<and> (87400::nat) + WITHDRAWAL_INTERVAL \<le> 173800
   \<and> 0 < getPotBalance ledger3 0 \<and> released (getPotBalance ledger3 0) \<le> funds ledger3
   \<and> accepts mockEnv 173800 2 (released (getPotBalance ledger3 0))
   \<and> succeeds (withdraw mockEnv ledger3 2 173800 0)"
proof -
  note T = withdraw_succeeds_iff
  have h2: "status (hunts ledger2 0) = Claimed" "claimer (claims ledger2 0) = 2"
    "lastWithdrawal (claims ledger2 0) = 0" "funds ledger2 = 1000000"
    "accepts mockEnv 87400 2 500000" "(1000000::nat) * 50 < UINT256_LIMIT"
    by (simp_all add: ledger2_eq mockEnv_def UINT256_LIMIT_def)
  have a: "succeeds (withdraw mockEnv ledger2 2 87400 0)"
    using T [of mockEnv ledger2 2 87400 0] h2 getPotBalance_ledger2 released_1000000 by simp
  have t: "(0::nat) < 87400" "(87400::nat) < 87400 + WITHDRAWAL_INTERVAL"
    "(87400::nat) + WITHDRAWAL_INTERVAL \<le> 173800"
    by (simp_all add: WITHDRAWAL_INTERVAL_def)
  have b: "withdraw mockEnv ledger3 2 87400 0 = Inl (Revert ''Withdrawal too soon'')
      \<and> transact mockEnv ledger3 2 87400 (CallWithdraw 0) = ledger3"
    using T [of mockEnv ledger2 2 87400 0 ledger3 87400 2] withdraw_ledger2 t by simp
  have h3: "0 < getPotBalance ledger3 0" "released (getPotBalance ledger3 0) \<le> funds ledger3"
    "accepts mockEnv 173800 2 (released (getPotBalance ledger3 0))"
    by (simp_all add: ledger3_eq getPotBalance_def released_def mockEnv_def)
  have c: "succeeds (withdraw mockEnv ledger3 2 173800 0)"
    using T [of mockEnv ledger2 2 87400 0 ledger3 173800] withdraw_ledger2 t h3 by simp
  from a b c t h3 withdraw_ledger2 show ?thesis by simp
qed

subsection \<open>Expiry and the terminal states\<close>

text \<open>
  C8, as claimed: \<open>expireHunt\<close> succeeds exactly when the hunt is Active and its deadline has
  passed, and no hunt ever leaves Claimed or Expired. Two runs show otherwise. Hunt 0 of
  \<open>ledger1\<close> is Active and at its deadline, and its expiry reverts when the creator is a
  contract that does not take the refund. And on the deployed contract hunt id 0, which
  nobody has registered, reads as an Active hunt with deadline 0: \<open>expireHunt\<close> succeeds on
  it and stores Expired, and the next registration hands out id 0 and stores Active over it.
\<close>

theorem expireHunt_counterexample:
  "reachable refusingEnv ledger1
   \<and> status (hunts ledger1 0) = Active \<and> expiresAt (hunts ledger1 0) \<le> 1210600
   \<and> \<not> succeeds (expireHunt refusingEnv ledger1 9 1210600 0)
   \<and> succeeds (expireHunt mockEnv deployed 9 500 0)
   \<and> reachable mockEnv ledgerU1 \<and> status (hunts ledgerU1 0) = Expired
   \<and> createHunt ledgerU1 1 1000000 1000 42 86400 1209600 1000 = Inr (0, ledgerU2)
   \<and> steps mockEnv ledgerU1 ledgerU2
   \<and> status (hunts ledgerU2 0) = Active"
proof -
  have 1: "status (hunts ledger1 0) = Active \<and> expiresAt (hunts ledger1 0) \<le> 1210600"
    by (simp add: ledger1_eq)
  have 2: "\<not> succeeds (expireHunt refusingEnv ledger1 9 1210600 0)"
    by (simp add: expireHunt_def getPotBalance_def transfer_def bindE_def refusingEnv_def
        ledger1_eq deployed_def zeroClaim_def Let_def succeeds_def)
  have 3: "succeeds (expireHunt mockEnv deployed 9 500 0)"
    by (simp add: expireHunt_def getPotBalance_def bindE_def deployed_def zeroHunt_def
        zeroClaim_def Let_def succeeds_def)
  have 4: "status (hunts ledgerU1 0) = Expired"
    by (simp add: ledgerU1_eq)
  have 5: "createHunt ledgerU1 1 1000000 1000 42 86400 1209600 1000 = Inr (0, ledgerU2)"
    by (simp add: ledgerU2_def transact_def createHunt_def bindE_def MIN_HIDER_LOCKOUT_def
        MAX_HUNT_DURATION_def ledgerU1_eq deployed_def)
  have 6: "steps mockEnv ledgerU1 ledgerU2"
    unfolding ledgerU2_def by (intro steps_transact steps_refl)
  have 7: "status (hunts ledgerU2 0) = Active"
    by (simp add: ledgerU2_def transact_def createHunt_def bindE_def MIN_HIDER_LOCKOUT_def
        MAX_HUNT_DURATION_def ledgerU1_eq deployed_def)
  from 1 2 3 4 5 6 7 reachable_ledgerU1 reachable_refusing_ledger1 show ?thesis by simp
qed

text \<open>
  C8, amended: \<open>expireHunt\<close> succeeds, for any caller, exactly when the hunt is Active, its
  deadline has passed and the refund of a positive pot goes through (the contract holds it
  and the creator takes it then). On success the hunt is Expired and the whole pot balance was
  sent to the hunt's creator. \<open>claimTreasure\<close> never succeeds at or after the deadline. A
  hunt that is Claimed in a reachable ledger stays Claimed, and a registered hunt that is
  Expired stays Expired.
\<close>

theorem expireHunt_spec:
  "(succeeds (expireHunt E s a now i) \<longleftrightarrow>
      status (hunts s i) = Active \<and> expiresAt (hunts s i) \<le> now
      \<and> (0 < getPotBalance s i \<longrightarrow>
            getPotBalance s i \<le> funds s
            \<and> accepts E now (hider (hunts s i)) (getPotBalance s i)))
   \<and> (expireHunt E s a now i = Inr s' \<longrightarrow>
        status (hunts s' i) = Expired
        \<and> (0 < getPotBalance s i \<longrightarrow> sent s' = (hider (hunts s i), getPotBalance s i) # sent s)
        \<and> (getPotBalance s i = 0 \<longrightarrow> sent s' = sent s))
   \<and> (expiresAt (hunts s i) \<le> now \<longrightarrow> \<not> succeeds (claimTreasure E s a now i p cc))
   \<and> (reachable E s \<longrightarrow> status (hunts s i) = Claimed \<longrightarrow> steps E s t \<longrightarrow>
        status (hunts t i) = Claimed)
   \<and> (i < huntCounter s \<longrightarrow> status (hunts s i) = Expired \<longrightarrow> steps E s t \<longrightarrow>
        status (hunts t i) = Expired)"
proof -
  have 1: "succeeds (expireHunt E s a now i) \<longleftrightarrow>
      status (hunts s i) = Active \<and> expiresAt (hunts s i) \<le> now
      \<and> (0 < getPotBalance s i \<longrightarrow>
            getPotBalance s i \<le> funds s
            \<and> accepts E now (hider (hunts s i)) (getPotBalance s i))"
    unfolding succeeds_Inr_iff expireHunt_Inr_iff by auto
  have 2: "expireHunt E s a now i = Inr s' \<longrightarrow>
        status (hunts s' i) = Expired
        \<and> (0 < getPotBalance s i \<longrightarrow> sent s' = (hider (hunts s i), getPotBalance s i) # sent s)
        \<and> (getPotBalance s i = 0 \<longrightarrow> sent s' = sent s)"
    by (auto simp: expireHunt_Inr_iff split: if_splits)
  have 3: "expiresAt (hunts s i) \<le> now \<longrightarrow> \<not> succeeds (claimTreasure E s a now i p cc)"
    by (simp add: claimTreasure_def succeeds_def Let_def)
  have 4: "reachable E s \<longrightarrow> status (hunts s i) = Claimed \<longrightarrow> steps E s t \<longrightarrow>
        status (hunts t i) = Claimed"
  proof (intro impI)
    assume r: "reachable E s" and c: "status (hunts s i) = Claimed" and st: "steps E s t"
    from claimed_registered [OF reachable_inv [OF r] c] have "i < huntCounter s" .
    from terminal_steps [OF st this] c show "status (hunts t i) = Claimed" by simp
  qed
  have 5: "i < huntCounter s \<longrightarrow> status (hunts s i) = Expired \<longrightarrow> steps E s t \<longrightarrow>
        status (hunts t i) = Expired"
  proof (intro impI)
    assume reg: "i < huntCounter s" and e: "status (hunts s i) = Expired" and st: "steps E s t"
    from terminal_steps [OF st reg] e show "status (hunts t i) = Expired" by simp
  qed
  show ?thesis by (rule conjI [OF 1 conjI [OF 2 conjI [OF 3 conjI [OF 4 5]]]])
qed


theorem expireHunt_spec_witness:
  "status (hunts ledger1 0) = Active \<and> expiresAt (hunts ledger1 0) \<le> 1210600
   \<and> 0 < getPotBalance ledger1 0 \<and> getPotBalance ledger1 0 \<le> funds ledger1
   \<and> accepts mockEnv 1210600 (hider (hunts ledger1 0)) (getPotBalance ledger1 0)
   \<and> succeeds (expireHunt mockEnv ledger1 9 1210600 0)
   \<and> expireHunt mockEnv ledger1 9 1210600 0 = Inr ledgerE
   \<and> status (hunts ledgerE 0) = Expired \<and> sent ledgerE = [(1, 1000000)]
   \<and> \<not> succeeds (claimTreasure mockEnv ledger1 2 1210600 0 someProof 7)
   \<and> reachable mockEnv ledger2 \<and> status (hunts ledger2 0) = Claimed
   \<and> steps mockEnv ledger2 ledger3 \<and> status (hunts ledger3 0) = Claimed
   \<and> 0 < huntCounter ledgerE
   \<and> steps mockEnv ledgerE (transact mockEnv ledgerE 4 1300000 (CallCreateHunt 500 43 0 3600 10))
   \<and> status (hunts (transact mockEnv ledgerE 4 1300000 (CallCreateHunt 500 43 0 3600 10)) 0) = Expired"
proof -
  note T = expireHunt_spec
  have h: "status (hunts ledger1 0) = Active" "expiresAt (hunts ledger1 0) \<le> 1210600"
    "0 < getPotBalance ledger1 0" "getPotBalance ledger1 0 \<le> funds ledger1"
    "accepts mockEnv 1210600 (hider (hunts ledger1 0)) (getPotBalance ledger1 0)"
    "getPotBalance ledger1 0 = 1000000"
    "hider (hunts ledger1 0) = 1" "sent ledger1 = []"
    by (simp_all add: ledger1_eq getPotBalance_def deployed_def zeroClaim_def mockEnv_def)
  have a: "succeeds (expireHunt mockEnv ledger1 9 1210600 0)"
    using T [of mockEnv ledger1 9 1210600 0] h by simp
  have b: "status (hunts ledgerE 0) = Expired \<and> sent ledgerE = [(1, 1000000)]"
    using T [of mockEnv ledger1 9 1210600 0 ledgerE] expire_ledger1 h by simp
  have c: "\<not> succeeds (claimTreasure mockEnv ledger1 2 1210600 0 someProof 7)"
    using T [of mockEnv ledger1 2 1210600 0 _ someProof 7] h by simp
  have st: "steps mockEnv ledger2 ledger3"
    unfolding ledger3_def by (intro steps_transact steps_refl)
  have c2: "status (hunts ledger2 0) = Claimed" by (simp add: ledger2_eq)
  have d: "status (hunts ledger3 0) = Claimed"
    using T [of mockEnv ledger2 _ _ 0 _ _ _ ledger3] reachable_ledger2 c2 st by simp
  have st': "steps mockEnv ledgerE (transact mockEnv ledgerE 4 1300000 (CallCreateHunt 500 43 0 3600 10))"
    by (intro steps_transact steps_refl)
  have reg: "0 < huntCounter ledgerE" by (simp add: ledgerE_eq)
  have e: "status (hunts (transact mockEnv ledgerE 4 1300000 (CallCreateHunt 500 43 0 3600 10)) 0) = Expired"
    using T [of mockEnv ledgerE _ _ 0 _ _ _
        "transact mockEnv ledgerE 4 1300000 (CallCreateHunt 500 43 0 3600 10)"] reg b st'
    by simp
  from h a b c d e st st' reg c2 expire_ledger1 reachable_ledger2 show ?thesis by simp
qed

subsection \<open>Distance check\<close>

text \<open>
  C6. The claim: the distance constraint evaluator accepts exactly when the squared
  distance is at most \<open>radiusSquared\<close>, so a point at squared distance exactly
  \<open>radiusSquared\<close> is accepted. The circuit compares with \<open>LessThan\<close>: the finder 100
  units north of the target, with \<open>radiusSquared = 10000\<close>, is at squared distance exactly
  10000; the circuit outputs 0 and the constraint \<open>withinRange === 1\<close> fails, while the
  client's \<open>isWithinRadius\<close> accepts the same point.
\<close>

theorem DistanceCheck_rejects_boundary:
  "distanceSquared 100 0 0 0 = 10000
   \<and> DistanceCheck (to_field 100) (to_field 0) (to_field 0) (to_field 0) (to_field 10000) = Some 0
   \<and> \<not> distanceAccepted 100 0 0 0 10000
   \<and> isWithinRadius 100 0 0 0"
proof -
  have d: "distanceSquared 100 0 0 0 = 10000"
    by (simp add: distanceSquared_def)
  have "DistanceCheck (to_field 100) (to_field 0) (to_field 0) (to_field 0) (to_field 10000)
          = LessThan 64 (to_field (distanceSquared 100 0 0 0)) (to_field 10000)"
    by (simp add: DistanceCheck_def distanceSquared_def Let_def fsub_to_field fmul_to_field
        fadd_to_field)
  also have "\<dots> = Some 0"
    unfolding d using LessThan_64 [of 10000 10000] by simp
  finally have c: "DistanceCheck (to_field 100) (to_field 0) (to_field 0) (to_field 0) (to_field 10000)
      = Some 0" .
  from c d show ?thesis
    by (simp add: distanceAccepted_def isWithinRadius_def RADIUS_SQUARED_def RADIUS_SCALED_def)
qed

end
